theory Spec2Isabelle
  imports Main "HOL-Library.Sublist"
begin

section \<open>JavaScript values and errors\<close>

text \<open>
  The handlers are written against untyped values (\<^verbatim>\<open>any\<close>): the result of the
  model call, the parsed JSON and the bodies passed to \<^verbatim>\<open>res.json\<close>. They are
  modelled by a datatype of JavaScript values. Numbers are carried as payload only and are
  never computed with, so an integer stands for them.
\<close>

datatype jsval =
    JUndefined
  | JNull
  | JBool bool
  | JNum int
  | JStr string
  | JArr "jsval list"
  | JObj "(string \<times> jsval) list"

text \<open>A thrown \<^verbatim>\<open>Error\<close>: its \<^verbatim>\<open>name\<close> and its \<^verbatim>\<open>message\<close>.\<close>

datatype js_error = JsError (err_name: string) (err_message: string)

text \<open>A computation that returns a value or throws: \<open>Inl\<close> is the thrown error.\<close>

definition bind_r :: "js_error + 'a \<Rightarrow> ('a \<Rightarrow> js_error + 'b) \<Rightarrow> js_error + 'b" where
  "bind_r m f = (case m of Inl e \<Rightarrow> Inl e | Inr x \<Rightarrow> f x)"

text \<open>Truthiness, as tested by \<^verbatim>\<open>if (v)\<close>, \<^verbatim>\<open>!v\<close> and \<^verbatim>\<open>filter\<close>.\<close>

fun truthy :: "jsval \<Rightarrow> bool" where
  "truthy JUndefined = False"
| "truthy JNull = False"
| "truthy (JBool b) = b"
| "truthy (JNum n) = (n \<noteq> 0)"
| "truthy (JStr s) = (s \<noteq> [])"
| "truthy (JArr xs) = True"
| "truthy (JObj kvs) = True"

text \<open>Truthiness of an optional string field of a request body (absent is \<^verbatim>\<open>undefined\<close>).\<close>

fun truthy_str :: "string option \<Rightarrow> bool" where
  "truthy_str None = False"
| "truthy_str (Some s) = (s \<noteq> [])"

fun show_nat :: "nat \<Rightarrow> string" where
  "show_nat n =
     (if n < 10 then [char_of (48 + n)]
      else show_nat (n div 10) @ [char_of (48 + n mod 10)])"

definition show_int :: "int \<Rightarrow> string" where
  "show_int i = (if i < 0 then CHR ''-'' # show_nat (nat (- i)) else show_nat (nat i))"

text \<open>
  The message of the \<^verbatim>\<open>TypeError\<close> that the runtime throws when a property of
  \<^verbatim>\<open>undefined\<close> or \<^verbatim>\<open>null\<close> is read (the wording of V8).
\<close>

definition cannot_read :: "string \<Rightarrow> string \<Rightarrow> js_error" where
  "cannot_read what key =
     JsError ''TypeError'' (''Cannot read properties of '' @ what @ '' (reading '' @ [CHR 0x27] @ key @ [CHR 0x27] @ '')'')"

definition not_a_function :: "string \<Rightarrow> js_error" where
  "not_a_function expr = JsError ''TypeError'' (expr @ '' is not a function'')"

text \<open>
  Property access \<^verbatim>\<open>v.key\<close>. It throws on \<^verbatim>\<open>undefined\<close> and \<^verbatim>\<open>null\<close>; a
  missing property reads as \<^verbatim>\<open>undefined\<close>. The handlers read only the properties
  \<^verbatim>\<open>response\<close>, \<^verbatim>\<open>candidates\<close>, \<^verbatim>\<open>content\<close>, \<^verbatim>\<open>parts\<close>, \<^verbatim>\<open>inlineData\<close>,
  \<^verbatim>\<open>data\<close> and \<^verbatim>\<open>text\<close>, none of which is inherited from a prototype.
\<close>

fun get_prop :: "jsval \<Rightarrow> string \<Rightarrow> js_error + jsval" where
  "get_prop JUndefined key = Inl (cannot_read ''undefined'' key)"
| "get_prop JNull key = Inl (cannot_read ''null'' key)"
| "get_prop (JObj kvs) key = Inr (case map_of kvs key of None \<Rightarrow> JUndefined | Some v \<Rightarrow> v)"
| "get_prop (JArr xs) key = Inr (if key = ''length'' then JNum (int (length xs)) else JUndefined)"
| "get_prop (JStr s) key = Inr (if key = ''length'' then JNum (int (length s)) else JUndefined)"
| "get_prop (JBool b) key = Inr JUndefined"
| "get_prop (JNum n) key = Inr JUndefined"

text \<open>Indexing \<^verbatim>\<open>v[i]\<close>; out of range reads as \<^verbatim>\<open>undefined\<close>.\<close>

fun get_index :: "jsval \<Rightarrow> nat \<Rightarrow> js_error + jsval" where
  "get_index JUndefined i = Inl (cannot_read ''undefined'' (show_nat i))"
| "get_index JNull i = Inl (cannot_read ''null'' (show_nat i))"
| "get_index (JArr xs) i = Inr (if i < length xs then xs ! i else JUndefined)"
| "get_index (JStr s) i = Inr (if i < length s then JStr [s ! i] else JUndefined)"
| "get_index (JObj kvs) i = Inr (case map_of kvs (show_nat i) of None \<Rightarrow> JUndefined | Some v \<Rightarrow> v)"
| "get_index (JBool b) i = Inr JUndefined"
| "get_index (JNum n) i = Inr JUndefined"

text \<open>
  The receiver of an array method call \<^verbatim>\<open>v.filter(...)\<close>: the elements when \<open>v\<close> is an
  array, a \<^verbatim>\<open>TypeError\<close> otherwise (\<open>expr\<close> is the source text of the receiver, which
  the message quotes).
\<close>

fun array_receiver :: "string \<Rightarrow> string \<Rightarrow> jsval \<Rightarrow> js_error + jsval list" where
  "array_receiver expr meth (JArr xs) = Inr xs"
| "array_receiver expr meth JUndefined = Inl (cannot_read ''undefined'' meth)"
| "array_receiver expr meth JNull = Inl (cannot_read ''null'' meth)"
| "array_receiver expr meth v = Inl (not_a_function (expr @ ''.'' @ meth))"

text \<open>\<^verbatim>\<open>filter\<close> and \<^verbatim>\<open>map\<close> with a callback that may throw.\<close>

fun filter_js :: "(jsval \<Rightarrow> js_error + bool) \<Rightarrow> jsval list \<Rightarrow> js_error + jsval list" where
  "filter_js p [] = Inr []"
| "filter_js p (x # xs) =
     bind_r (p x) (\<lambda>keep. bind_r (filter_js p xs) (\<lambda>rest. Inr (if keep then x # rest else rest)))"

fun map_js :: "(jsval \<Rightarrow> js_error + jsval) \<Rightarrow> jsval list \<Rightarrow> js_error + jsval list" where
  "map_js f [] = Inr []"
| "map_js f (x # xs) = bind_r (f x) (\<lambda>y. bind_r (map_js f xs) (\<lambda>ys. Inr (y # ys)))"

fun join_comma :: "string list \<Rightarrow> string" where
  "join_comma [] = []"
| "join_comma [s] = s"
| "join_comma (s # t # ss) = s @ '','' @ join_comma (t # ss)"

text \<open>\<^verbatim>\<open>String(v)\<close>, the conversion that \<^verbatim>\<open>JSON.parse\<close> applies to its argument.\<close>

fun to_js_string :: "jsval \<Rightarrow> string" where
  "to_js_string JUndefined = ''undefined''"
| "to_js_string JNull = ''null''"
| "to_js_string (JBool b) = (if b then ''true'' else ''false'')"
| "to_js_string (JNum n) = show_int n"
| "to_js_string (JStr s) = s"
| "to_js_string (JArr xs) =
     join_comma (map (\<lambda>x. if x = JUndefined \<or> x = JNull then [] else to_js_string x) xs)"
| "to_js_string (JObj kvs) = ''[object Object]''"

text \<open>
  \<^verbatim>\<open>JSON.parse\<close> is a built-in of the runtime: the parser of texts is a parameter
  \<open>parse\<close>, which returns the parsed value or the \<^verbatim>\<open>SyntaxError\<close> it throws.
\<close>

type_synonym json_parser = "string \<Rightarrow> js_error + jsval"

definition JSON_parse :: "json_parser \<Rightarrow> jsval \<Rightarrow> js_error + jsval" where
  "JSON_parse parse v = parse (to_js_string v)"

text \<open>\<^verbatim>\<open>s.includes(t)\<close> on strings.\<close>

definition str_includes :: "string \<Rightarrow> string \<Rightarrow> bool" where
  "str_includes s t = sublist t s"

section \<open>The helpers of the serverless functions\<close>

text \<open>The functions of \<^verbatim>\<open>api/_lib/helpers.ts\<close>; server.ts repeats the first three word for word.\<close>

text \<open>
  \<^verbatim>\<open>process.env.GEMINI_API_KEY\<close> is \<open>None\<close> when the variable is unset. \<^verbatim>\<open>!apiKey\<close>
  holds for an unset variable and for the empty string.
\<close>

definition getApiKey :: "string option \<Rightarrow> js_error + string" where
  "getApiKey env =
     (let apiKey = env in
      if \<not> truthy_str apiKey
      then Inl (JsError ''Error'' ''GEMINI_API_KEY is not set in environment variables.'')
      else Inr (the apiKey))"

definition maskInstruction :: "bool \<Rightarrow> string" where
  "maskInstruction hasMask =
     (if hasMask
      then ''\<newline>\<newline>IMPORTANT: Apply changes ONLY where the mask image shows white pixels (value 255). Leave all other areas completely unchanged. Respect the mask boundaries precisely and maintain seamless blending at the edges.''
      else [])"

definition buildEditPrompt :: "string \<Rightarrow> bool \<Rightarrow> string" where
  "buildEditPrompt instruction hasMask =
     ''Edit this image according to the following instruction: '' @ instruction @
     ''\<newline>\<newline>Maintain the original image's lighting, perspective, and overall composition. Make the changes look natural and seamlessly integrated.'' @
     maskInstruction hasMask @
     ''\<newline>\<newline>Preserve image quality and ensure the edit looks professional and realistic.''"

definition buildSegmentationPrompt :: "string \<Rightarrow> string" where
  \<open>buildSegmentationPrompt query =
     ''Analyze this image and create a segmentation mask for: '' @ query @
     ''\<newline>\<newline>Return a JSON object with this exact structure:\<newline>{\<newline>  "masks": [\<newline>    {\<newline>      "label": "description of the segmented object",\<newline>      "box_2d": [x, y, width, height],\<newline>      "mask": "base64-encoded binary mask image"\<newline>    }\<newline>  ]\<newline>}\<newline>\<newline>Only segment the specific object or region requested. The mask should be a binary PNG where white pixels (255) indicate the selected region and black pixels (0) indicate the background.''\<close>

text \<open>The client object \<^verbatim>\<open>new GoogleGenAI({ apiKey })\<close>; constructing it contacts nobody.\<close>

datatype GoogleGenAI = GoogleGenAI (apiKey: string)

definition getGenAIInstance :: "string option \<Rightarrow> js_error + GoogleGenAI" where
  "getGenAIInstance env = bind_r (getApiKey env) (\<lambda>k. Inr (GoogleGenAI k))"

section \<open>Requests, content parts and responses\<close>

text \<open>
  The fields that the handlers destructure from \<^verbatim>\<open>req.body\<close>, typed as the interfaces
  \<^verbatim>\<open>GenerationRequest\<close>, \<^verbatim>\<open>EditRequest\<close> and \<^verbatim>\<open>SegmentationRequest\<close> declare them.
  An optional field that is absent is \<open>None\<close>. The fields \<^verbatim>\<open>temperature\<close> and
  \<^verbatim>\<open>seed\<close> are never read by a handler.
\<close>

record WithReferenceImages =
  referenceImages :: "string list option"

record GenerationRequest = WithReferenceImages +
  prompt :: string

record EditRequest = WithReferenceImages +
  instruction :: string
  originalImage :: string
  maskImage :: "string option"

record SegmentationRequest =
  image :: string
  query :: string

text \<open>A part of the content array: \<^verbatim>\<open>{ text }\<close> or \<^verbatim>\<open>{ inlineData: { mimeType, data } }\<close>.\<close>

datatype content_part =
    Text string
  | InlineData (mimeType: string) (data: string)

text \<open>An incoming request of the serverless platform.\<close>

record 'b VercelRequest =
  http_method :: string
  body :: 'b

datatype http_body = Json jsval | Send jsval

record http_response =
  statusCode :: nat
  sent :: http_body

definition res_json :: "nat \<Rightarrow> jsval \<Rightarrow> http_response" where
  "res_json code v = \<lparr>statusCode = code, sent = Json v\<rparr>"

definition res_send :: "nat \<Rightarrow> jsval \<Rightarrow> http_response" where
  "res_send code v = \<lparr>statusCode = code, sent = Send v\<rparr>"

section \<open>The outbound call and the handler monad\<close>

text \<open>
  One call of \<^verbatim>\<open>genAI.models.generateContent({ model, contents })\<close>. The external model
  is a parameter: it answers a call with a result object or rejects with an error. Every
  call is appended to a trace, so that the number and the order of outbound calls can be
  stated.
\<close>

record upstream_call =
  call_apiKey :: string
  call_model :: string
  call_contents :: "content_part list"

type_synonym upstream = "upstream_call \<Rightarrow> js_error + jsval"

type_synonym 'a io = "upstream_call list \<Rightarrow> (js_error + 'a) \<times> upstream_call list"

definition return_io :: "'a \<Rightarrow> 'a io" where
  "return_io x = (\<lambda>t. (Inr x, t))"

definition lift_io :: "js_error + 'a \<Rightarrow> 'a io" where
  "lift_io r = (\<lambda>t. (r, t))"

definition bind_io :: "'a io \<Rightarrow> ('a \<Rightarrow> 'b io) \<Rightarrow> 'b io" where
  "bind_io m f = (\<lambda>t. case m t of (Inl e, t') \<Rightarrow> (Inl e, t') | (Inr x, t') \<Rightarrow> f x t')"

definition try_catch :: "'a io \<Rightarrow> (js_error \<Rightarrow> 'a io) \<Rightarrow> 'a io" where
  "try_catch m h = (\<lambda>t. case m t of (Inl e, t') \<Rightarrow> h e t' | (Inr x, t') \<Rightarrow> (Inr x, t'))"

definition generateContent :: "upstream \<Rightarrow> GoogleGenAI \<Rightarrow> string \<Rightarrow> content_part list \<Rightarrow> jsval io" where
  "generateContent up genAI model contents =
     (\<lambda>t. let c = \<lparr>call_apiKey = apiKey genAI, call_model = model, call_contents = contents\<rparr>
          in (up c, t @ [c]))"

text \<open>
  A handler always answers: both branches of its outer \<^verbatim>\<open>try\<close>/\<^verbatim>\<open>catch\<close> send a
  response. Running it from the empty trace gives the response and the outbound calls made.
\<close>

definition run :: "http_response io \<Rightarrow> http_response option \<times> upstream_call list" where
  "run h = (case h [] of (Inl e, t) \<Rightarrow> (None, t) | (Inr r, t) \<Rightarrow> (Some r, t))"

section \<open>Assembling the content array\<close>

text \<open>
  The block shared by the generate and edit handlers:
  \<^verbatim>\<open>if (referenceImages && referenceImages.length > 0) referenceImages.forEach(image => contents.push(...))\<close>.
\<close>

definition push_referenceImages :: "content_part list \<Rightarrow> string list option \<Rightarrow> content_part list" where
  "push_referenceImages contents refs =
     (case refs of
        None \<Rightarrow> contents
      | Some images \<Rightarrow>
          if length images > 0
          then foldl (\<lambda>c image. c @ [InlineData ''image/png'' image]) contents images
          else contents)"

definition generate_contents :: "GenerationRequest \<Rightarrow> content_part list" where
  "generate_contents b = push_referenceImages [Text (prompt b)] (referenceImages b)"

definition edit_contents :: "EditRequest \<Rightarrow> content_part list" where
  "edit_contents b =
     (let contents = [Text (buildEditPrompt (instruction b) (truthy_str (maskImage b))),
                      InlineData ''image/png'' (originalImage b)];
          contents = push_referenceImages contents (referenceImages b)
      in if truthy_str (maskImage b)
         then contents @ [InlineData ''image/png'' (the (maskImage b))]
         else contents)"

definition segment_contents :: "SegmentationRequest \<Rightarrow> content_part list" where
  "segment_contents b =
     [Text (buildSegmentationPrompt (query b)), InlineData ''image/png'' (image b)]"

definition model_id :: string where
  "model_id = ''gemini-2.5-flash-image-preview''"

section \<open>Reading the result of the model\<close>

text \<open>\<^verbatim>\<open>parts.filter(part => part.inlineData).map(part => part.inlineData.data)\<close>\<close>

definition inline_images :: "string \<Rightarrow> jsval \<Rightarrow> js_error + jsval list" where
  "inline_images expr parts =
     bind_r (array_receiver expr ''filter'' parts) (\<lambda>ps.
     bind_r (filter_js (\<lambda>part. bind_r (get_prop part ''inlineData'') (\<lambda>d. Inr (truthy d))) ps) (\<lambda>kept.
     map_js (\<lambda>part. bind_r (get_prop part ''inlineData'') (\<lambda>d. get_prop d ''data'')) kept))"

text \<open>\<^verbatim>\<open>result.candidates[0].content.parts\<close>, as the serverless handlers read it.\<close>

definition candidates_parts :: "jsval \<Rightarrow> js_error + jsval" where
  "candidates_parts result =
     bind_r (get_prop result ''candidates'') (\<lambda>cs.
     bind_r (get_index cs 0) (\<lambda>c.
     bind_r (get_prop c ''content'') (\<lambda>content.
     get_prop content ''parts'')))"

text \<open>\<^verbatim>\<open>result.response.candidates[0].content.parts\<close>, as server.ts reads it.\<close>

definition response_candidates_parts :: "jsval \<Rightarrow> js_error + jsval" where
  "response_candidates_parts result =
     bind_r (get_prop result ''response'') (\<lambda>response. candidates_parts response)"

text \<open>\<^verbatim>\<open>parts[0].text\<close>\<close>

definition first_text :: "jsval \<Rightarrow> js_error + jsval" where
  "first_text parts = bind_r (get_index parts 0) (\<lambda>p. get_prop p ''text'')"

text \<open>
  The four expressions by which the handlers read a result: the images or the text, from
  \<^verbatim>\<open>result.candidates\<close> or from \<^verbatim>\<open>result.response.candidates\<close>.
\<close>

definition candidates_images :: "jsval \<Rightarrow> js_error + jsval list" where
  "candidates_images result =
     bind_r (candidates_parts result) (inline_images ''result.candidates[0].content.parts'')"

definition response_candidates_images :: "jsval \<Rightarrow> js_error + jsval list" where
  "response_candidates_images result =
     bind_r (response_candidates_parts result)
       (inline_images ''result.response.candidates[0].content.parts'')"

definition candidates_text :: "jsval \<Rightarrow> js_error + jsval" where
  "candidates_text result = bind_r (candidates_parts result) first_text"

definition response_candidates_text :: "jsval \<Rightarrow> js_error + jsval" where
  "response_candidates_text result = bind_r (response_candidates_parts result) first_text"

definition images_payload :: "jsval list \<Rightarrow> jsval" where
  "images_payload images = JObj [(''images'', JArr images)]"

definition error_payload :: "js_error \<Rightarrow> jsval" where
  "error_payload error = JObj [(''error'', JStr (err_message error))]"

definition method_not_allowed :: http_response where
  "method_not_allowed = res_json 405 (JObj [(''error'', JStr ''Method Not Allowed'')])"

section \<open>The serverless handlers (api/generate, api/edit.ts, api/segment.ts)\<close>

definition api_generate_try :: "string option \<Rightarrow> upstream \<Rightarrow> GenerationRequest \<Rightarrow> http_response io" where
  "api_generate_try env up b =
     bind_io (lift_io (getGenAIInstance env)) (\<lambda>genAI.
     bind_io (generateContent up genAI model_id (generate_contents b)) (\<lambda>result.
     bind_io (lift_io (candidates_images result)) (\<lambda>images.
     return_io (res_json 200 (images_payload images)))))"

definition api_generate :: "string option \<Rightarrow> upstream \<Rightarrow> GenerationRequest VercelRequest \<Rightarrow> http_response io" where
  "api_generate env up req =
     (if http_method req \<noteq> ''POST'' then return_io method_not_allowed
      else try_catch (api_generate_try env up (body req))
             (\<lambda>error. return_io (res_json 500 (error_payload error))))"

definition api_edit_try :: "string option \<Rightarrow> upstream \<Rightarrow> EditRequest \<Rightarrow> http_response io" where
  "api_edit_try env up b =
     bind_io (lift_io (getGenAIInstance env)) (\<lambda>genAI.
     bind_io (generateContent up genAI model_id (edit_contents b)) (\<lambda>result.
     bind_io (lift_io (candidates_images result)) (\<lambda>images.
     return_io (res_json 200 (images_payload images)))))"

definition api_edit :: "string option \<Rightarrow> upstream \<Rightarrow> EditRequest VercelRequest \<Rightarrow> http_response io" where
  "api_edit env up req =
     (if http_method req \<noteq> ''POST'' then return_io method_not_allowed
      else try_catch (api_edit_try env up (body req))
             (\<lambda>error. return_io (res_json 500 (error_payload error))))"

text \<open>
  The inner \<^verbatim>\<open>try\<close> of the segment handler: parse the text and answer with the parsed
  value, or answer with the text itself when parsing throws.
\<close>

definition parse_or_send :: "json_parser \<Rightarrow> jsval \<Rightarrow> http_response io" where
  "parse_or_send parse responseText =
     try_catch
       (bind_io (lift_io (JSON_parse parse responseText)) (\<lambda>jsonResponse.
        return_io (res_json 200 jsonResponse)))
       (\<lambda>e. return_io (res_send 200 responseText))"

definition api_segment_try :: "json_parser \<Rightarrow> string option \<Rightarrow> upstream \<Rightarrow> SegmentationRequest \<Rightarrow> http_response io" where
  "api_segment_try parse env up b =
     bind_io (lift_io (getGenAIInstance env)) (\<lambda>genAI.
     bind_io (generateContent up genAI model_id (segment_contents b)) (\<lambda>result.
     bind_io (lift_io (candidates_text result)) (\<lambda>responseText.
     parse_or_send parse responseText)))"

definition api_segment :: "json_parser \<Rightarrow> string option \<Rightarrow> upstream \<Rightarrow> SegmentationRequest VercelRequest \<Rightarrow> http_response io" where
  "api_segment parse env up req =
     (if http_method req \<noteq> ''POST'' then return_io method_not_allowed
      else try_catch (api_segment_try parse env up (body req))
             (\<lambda>error. return_io (res_json 500 (error_payload error))))"

text \<open>
  The second serverless segment handler of the repository: the same, reading
  \<^verbatim>\<open>result.response.candidates[0].content.parts[0].text\<close>.
\<close>

definition api_segment2_try :: "json_parser \<Rightarrow> string option \<Rightarrow> upstream \<Rightarrow> SegmentationRequest \<Rightarrow> http_response io" where
  "api_segment2_try parse env up b =
     bind_io (lift_io (getGenAIInstance env)) (\<lambda>genAI.
     bind_io (generateContent up genAI model_id (segment_contents b)) (\<lambda>result.
     bind_io (lift_io (response_candidates_text result)) (\<lambda>responseText.
     parse_or_send parse responseText)))"

definition api_segment2 :: "json_parser \<Rightarrow> string option \<Rightarrow> upstream \<Rightarrow> SegmentationRequest VercelRequest \<Rightarrow> http_response io" where
  "api_segment2 parse env up req =
     (if http_method req \<noteq> ''POST'' then return_io method_not_allowed
      else try_catch (api_segment2_try parse env up (body req))
             (\<lambda>error. return_io (res_json 500 (error_payload error))))"

section \<open>The standalone server (server.ts)\<close>

text \<open>
  The routes are registered with \<^verbatim>\<open>app.post\<close>, so a handler sees POST requests only and
  takes the parsed body. \<^verbatim>\<open>res.json\<close> without \<^verbatim>\<open>res.status\<close> answers with status 200.
\<close>

definition server_generate_try :: "string option \<Rightarrow> upstream \<Rightarrow> GenerationRequest \<Rightarrow> http_response io" where
  "server_generate_try env up b =
     bind_io (lift_io (getGenAIInstance env)) (\<lambda>genAI.
     bind_io (generateContent up genAI model_id (generate_contents b)) (\<lambda>result.
     bind_io (lift_io (response_candidates_images result)) (\<lambda>images.
     return_io (res_json 200 (images_payload images)))))"

definition server_generate :: "string option \<Rightarrow> upstream \<Rightarrow> GenerationRequest \<Rightarrow> http_response io" where
  "server_generate env up b =
     try_catch (server_generate_try env up b)
       (\<lambda>error. return_io (res_json 500 (error_payload error)))"

definition server_edit_try :: "string option \<Rightarrow> upstream \<Rightarrow> EditRequest \<Rightarrow> http_response io" where
  "server_edit_try env up b =
     bind_io (lift_io (getGenAIInstance env)) (\<lambda>genAI.
     bind_io (generateContent up genAI model_id (edit_contents b)) (\<lambda>result.
     bind_io (lift_io (response_candidates_images result)) (\<lambda>images.
     return_io (res_json 200 (images_payload images)))))"

definition server_edit :: "string option \<Rightarrow> upstream \<Rightarrow> EditRequest \<Rightarrow> http_response io" where
  "server_edit env up b =
     try_catch (server_edit_try env up b)
       (\<lambda>error. return_io (res_json 500 (error_payload error)))"

definition server_segment_try :: "json_parser \<Rightarrow> string option \<Rightarrow> upstream \<Rightarrow> SegmentationRequest \<Rightarrow> http_response io" where
  "server_segment_try parse env up b =
     bind_io (lift_io (getGenAIInstance env)) (\<lambda>genAI.
     bind_io (generateContent up genAI model_id (segment_contents b)) (\<lambda>result.
     bind_io (lift_io (response_candidates_text result)) (\<lambda>responseText.
     bind_io (lift_io (JSON_parse parse responseText)) (\<lambda>parsed.
     return_io (res_json 200 parsed)))))"

definition server_segment :: "json_parser \<Rightarrow> string option \<Rightarrow> upstream \<Rightarrow> SegmentationRequest \<Rightarrow> http_response io" where
  "server_segment parse env up b =
     try_catch (server_segment_try parse env up b)
       (\<lambda>error. return_io (res_json 500 (error_payload error)))"

section \<open>The earlier standalone server\<close>

text \<open>
  The repository holds a second express server whose routes read
  \<^verbatim>\<open>result.candidates[0].content.parts\<close>.
\<close>

definition server1_generate_try :: "string option \<Rightarrow> upstream \<Rightarrow> GenerationRequest \<Rightarrow> http_response io" where
  "server1_generate_try env up b =
     bind_io (lift_io (getGenAIInstance env)) (\<lambda>genAI.
     bind_io (generateContent up genAI model_id (generate_contents b)) (\<lambda>result.
     bind_io (lift_io (candidates_images result)) (\<lambda>images.
     return_io (res_json 200 (images_payload images)))))"

definition server1_generate :: "string option \<Rightarrow> upstream \<Rightarrow> GenerationRequest \<Rightarrow> http_response io" where
  "server1_generate env up b =
     try_catch (server1_generate_try env up b)
       (\<lambda>error. return_io (res_json 500 (error_payload error)))"

definition server1_edit_try :: "string option \<Rightarrow> upstream \<Rightarrow> EditRequest \<Rightarrow> http_response io" where
  "server1_edit_try env up b =
     bind_io (lift_io (getGenAIInstance env)) (\<lambda>genAI.
     bind_io (generateContent up genAI model_id (edit_contents b)) (\<lambda>result.
     bind_io (lift_io (candidates_images result)) (\<lambda>images.
     return_io (res_json 200 (images_payload images)))))"

definition server1_edit :: "string option \<Rightarrow> upstream \<Rightarrow> EditRequest \<Rightarrow> http_response io" where
  "server1_edit env up b =
     try_catch (server1_edit_try env up b)
       (\<lambda>error. return_io (res_json 500 (error_payload error)))"

definition server1_segment_try :: "json_parser \<Rightarrow> string option \<Rightarrow> upstream \<Rightarrow> SegmentationRequest \<Rightarrow> http_response io" where
  "server1_segment_try parse env up b =
     bind_io (lift_io (getGenAIInstance env)) (\<lambda>genAI.
     bind_io (generateContent up genAI model_id (segment_contents b)) (\<lambda>result.
     bind_io (lift_io (candidates_text result)) (\<lambda>responseText.
     bind_io (lift_io (JSON_parse parse responseText)) (\<lambda>parsed.
     return_io (res_json 200 parsed)))))"

definition server1_segment :: "json_parser \<Rightarrow> string option \<Rightarrow> upstream \<Rightarrow> SegmentationRequest \<Rightarrow> http_response io" where
  "server1_segment parse env up b =
     try_catch (server1_segment_try parse env up b)
       (\<lambda>error. return_io (res_json 500 (error_payload error)))"

section \<open>The client-side classification of errors (parseGeminiError)\<close>











subsection \<open>The classification as the specification words it\<close>






section \<open>Sample data for the examples\<close>

text \<open>An external model that answers every call with \<open>r\<close>, and one that rejects every call.\<close>

definition answers :: "jsval \<Rightarrow> upstream" where
  "answers r c = Inr r"

definition rejects :: "js_error \<Rightarrow> upstream" where
  "rejects e c = Inl e"

text \<open>
  A result object of the shape the client library returns: a list of candidates, the first
  with the given parts.
\<close>

definition text_part :: "string \<Rightarrow> jsval" where
  "text_part t = JObj [(''text'', JStr t)]"

definition inline_part :: "string \<Rightarrow> string \<Rightarrow> jsval" where
  "inline_part m d = JObj [(''inlineData'', JObj [(''mimeType'', JStr m), (''data'', JStr d)])]"

definition result_with_parts :: "jsval list \<Rightarrow> jsval" where
  "result_with_parts ps = JObj [(''candidates'', JArr [JObj [(''content'', JObj [(''parts'', JArr ps)])]])]"

text \<open>The same result nested under a \<^verbatim>\<open>response\<close> property.\<close>

definition under_response :: "jsval \<Rightarrow> jsval" where
  "under_response r = JObj [(''response'', r)]"

text \<open>
  An instance of the parser parameter for the examples. It agrees with \<^verbatim>\<open>JSON.parse\<close> on
  the two texts used below: the first is valid JSON, the second is not (the wording of the
  \<^verbatim>\<open>SyntaxError\<close> is that of Node 20). Any other text is rejected.
\<close>

definition sample_parse :: json_parser where
  \<open>sample_parse s =
     (if s = ''{"masks": []}'' then Inr (JObj [(''masks'', JArr [])])
      else if s = ''not json''
      then Inl (JsError ''SyntaxError'' ''Unexpected token 'o', "not json" is not valid JSON'')
      else Inl (JsError ''SyntaxError'' ''Unexpected token''))\<close>

text \<open>The values that the inline-data parts of a parts array carry, in order.\<close>

definition field :: "jsval \<Rightarrow> string \<Rightarrow> jsval" where
  "field v key = (case get_prop v key of Inl e \<Rightarrow> JUndefined | Inr x \<Rightarrow> x)"

definition inline_data_of :: "jsval list \<Rightarrow> jsval list" where
  "inline_data_of ps =
     map (\<lambda>p. field (field p ''inlineData'') ''data'') (filter (\<lambda>p. truthy (field p ''inlineData'')) ps)"

section \<open>The parts of a result, typed\<close>




section \<open>Expected responses and fixed texts\<close>

text \<open>The call that a handler sends for a content array, with the key of the environment.\<close>

definition call_of :: "string option \<Rightarrow> content_part list \<Rightarrow> upstream_call" where
  "call_of env contents = \<lparr>call_apiKey = the env, call_model = model_id, call_contents = contents\<rparr>"

text \<open>The response 500 whose JSON body is \<^verbatim>\<open>{ error: m }\<close>, \<open>m\<close> the message of the error.\<close>

definition failed_with :: "js_error \<Rightarrow> http_response" where
  "failed_with e = \<lparr>statusCode = 500, sent = Json (JObj [(''error'', JStr (err_message e))])\<rparr>"

definition key_error :: js_error where
  "key_error = JsError ''Error'' ''GEMINI_API_KEY is not set in environment variables.''"

definition images_response :: "jsval list \<Rightarrow> http_response" where
  "images_response images = \<lparr>statusCode = 200, sent = Json (JObj [(''images'', JArr images)])\<rparr>"

text \<open>The reference images of a request, none when the field is absent.\<close>

definition given_images :: "string list option \<Rightarrow> string list" where
  "given_images refs = (case refs of None \<Rightarrow> [] | Some images \<Rightarrow> images)"

text \<open>The pieces of the edit prompt around the instruction, and the phrase of the mask clause.\<close>

definition prompt_head :: string where
  "prompt_head = ''Edit this image according to the following instruction: ''"

definition prompt_tail :: string where
  "prompt_tail =
     ''\<newline>\<newline>Maintain the original image's lighting, perspective, and overall composition. Make the changes look natural and seamlessly integrated.'' @
     ''\<newline>\<newline>Preserve image quality and ensure the edit looks professional and realistic.''"

definition mask_phrase :: string where
  "mask_phrase = ''white pixels (value 255)''"

text \<open>The sentences of the mask clause, without the two line breaks that precede them.\<close>

definition mask_sentences :: string where
  "mask_sentences = ''IMPORTANT: Apply changes ONLY where the mask image shows white pixels (value 255). Leave all other areas completely unchanged. Respect the mask boundaries precisely and maintain seamless blending at the edges.''"

section \<open>Basic facts\<close>

lemma bind_r_simps: "bind_r (Inr x) f = f x" "bind_r (Inl e) f = Inl e"
  by (simp_all add: bind_r_def)

lemmas io_defs = run_def try_catch_def bind_io_def lift_io_def return_io_def generateContent_def Let_def

lemmas serverless_defs = api_generate_def api_generate_try_def api_edit_def api_edit_try_def
  api_segment_def api_segment_try_def api_segment2_def api_segment2_try_def parse_or_send_def

lemmas server_defs = server_generate_def server_generate_try_def server_edit_def
  server_edit_try_def server_segment_def server_segment_try_def

lemmas server1_defs = server1_generate_def server1_generate_try_def server1_edit_def
  server1_edit_try_def server1_segment_def server1_segment_try_def

lemmas response_defs = res_json_def res_send_def error_payload_def images_payload_def
  method_not_allowed_def failed_with_def key_error_def images_response_def call_of_def

lemma getGenAIInstance_unset:
  "\<not> truthy_str env \<Longrightarrow> getGenAIInstance env = Inl key_error"
  by (simp add: getGenAIInstance_def getApiKey_def bind_r_simps key_error_def)

lemma getGenAIInstance_set:
  "truthy_str env \<Longrightarrow> getGenAIInstance env = Inr (GoogleGenAI (the env))"
  by (simp add: getGenAIInstance_def getApiKey_def bind_r_simps)

subsection \<open>The loop that pushes the reference images\<close>

lemma foldl_push:
  "foldl (\<lambda>c image. c @ [InlineData m image]) contents images = contents @ map (InlineData m) images"
  by (induction images arbitrary: contents) simp_all

lemma push_referenceImages_eq:
  "push_referenceImages contents refs = contents @ map (InlineData ''image/png'') (given_images refs)"
  by (cases refs) (simp_all add: push_referenceImages_def given_images_def foldl_push)

lemma generate_contents_eq:
  "generate_contents g = Text (prompt g) # map (InlineData ''image/png'') (given_images (referenceImages g))"
  by (simp add: generate_contents_def push_referenceImages_eq)

lemma edit_contents_eq:
  "edit_contents e =
     [Text (buildEditPrompt (instruction e) (truthy_str (maskImage e))),
      InlineData ''image/png'' (originalImage e)]
     @ map (InlineData ''image/png'') (given_images (referenceImages e))
     @ (if truthy_str (maskImage e) then [InlineData ''image/png'' (the (maskImage e))] else [])"
  by (simp add: edit_contents_def push_referenceImages_eq Let_def)

subsection \<open>The trace of a handler that holds a key\<close>

lemma api_generate_trace:
  "http_method rg = ''POST'' \<Longrightarrow> truthy_str env \<Longrightarrow>
   snd (run (api_generate env up rg)) = [call_of env (generate_contents (body rg))]"
  by (simp add: serverless_defs io_defs getGenAIInstance_set call_of_def split: sum.splits prod.splits)

lemma api_edit_trace:
  "http_method re = ''POST'' \<Longrightarrow> truthy_str env \<Longrightarrow>
   snd (run (api_edit env up re)) = [call_of env (edit_contents (body re))]"
  by (simp add: serverless_defs io_defs getGenAIInstance_set call_of_def split: sum.splits prod.splits)

section \<open>The content array\<close>

text \<open>
  Claim C1. A generate request with \<open>N\<close> reference images sends the external model a content
  array of exactly \<open>N + 1\<close> parts: the text part with the prompt, then the reference images in
  their order. An edit request sends \<open>N + 2\<close> parts when no mask image is supplied and
  \<open>N + 3\<close> when one is: the text part with the edit prompt, the original image, the
  reference images in their order and, when a mask is supplied, the mask image last. An
  absent \<^verbatim>\<open>referenceImages\<close> field counts as no reference image, and a mask image is supplied
  when the field \<^verbatim>\<open>maskImage\<close> holds a non-empty string, which is the test
  \<^verbatim>\<open>if (maskImage)\<close> of the handlers. The array is the one passed to the only outbound
  call of a POST request handled with a key.
\<close>

theorem content_array_parts:
  "generate_contents g =
     Text (prompt g) # map (InlineData ''image/png'') (given_images (referenceImages g))
   \<and> length (generate_contents g) = length (given_images (referenceImages g)) + 1
   \<and> edit_contents e =
       [Text (buildEditPrompt (instruction e) (truthy_str (maskImage e))),
        InlineData ''image/png'' (originalImage e)]
       @ map (InlineData ''image/png'') (given_images (referenceImages e))
       @ (if truthy_str (maskImage e) then [InlineData ''image/png'' (the (maskImage e))] else [])
   \<and> length (edit_contents e) =
       length (given_images (referenceImages e)) + (if truthy_str (maskImage e) then 3 else 2)
   \<and> (http_method rg = ''POST'' \<and> truthy_str env \<longrightarrow>
        snd (run (api_generate env up rg)) = [call_of env (generate_contents (body rg))])
   \<and> (http_method re = ''POST'' \<and> truthy_str env \<longrightarrow>
        snd (run (api_edit env up re)) = [call_of env (edit_contents (body re))])"
proof -
  let ?N = "length (given_images (referenceImages g))"
  let ?M = "length (given_images (referenceImages e))"
  have generate: "generate_contents g =
      Text (prompt g) # map (InlineData ''image/png'') (given_images (referenceImages g))"
    by (rule generate_contents_eq)
  then have generate_count: "length (generate_contents g) = ?N + 1"
    by simp
  have edit: "edit_contents e =
      [Text (buildEditPrompt (instruction e) (truthy_str (maskImage e))),
       InlineData ''image/png'' (originalImage e)]
      @ map (InlineData ''image/png'') (given_images (referenceImages e))
      @ (if truthy_str (maskImage e) then [InlineData ''image/png'' (the (maskImage e))] else [])"
    by (rule edit_contents_eq)
  have edit_count: "length (edit_contents e) = ?M + (if truthy_str (maskImage e) then 3 else 2)"
    unfolding edit by simp
  have sent_generate: "http_method rg = ''POST'' \<and> truthy_str env \<longrightarrow>
      snd (run (api_generate env up rg)) = [call_of env (generate_contents (body rg))]"
    by (simp add: api_generate_trace)
  have sent_edit: "http_method re = ''POST'' \<and> truthy_str env \<longrightarrow>
      snd (run (api_edit env up re)) = [call_of env (edit_contents (body re))]"
    by (simp add: api_edit_trace)
  from generate generate_count edit edit_count sent_generate sent_edit
  show ?thesis by (intro conjI)
qed

theorem content_array_parts_witness:
  "generate_contents \<lparr>referenceImages = Some [''AAAA'', ''BBBB''], prompt = ''a cat''\<rparr> =
     [Text ''a cat'', InlineData ''image/png'' ''AAAA'', InlineData ''image/png'' ''BBBB'']
   \<and> length (edit_contents \<lparr>referenceImages = Some [''AAAA''], instruction = ''make the sky purple'',
         originalImage = ''IMG0'', maskImage = Some ''MASK''\<rparr>) = 4
   \<and> length (edit_contents \<lparr>referenceImages = Some [''AAAA''], instruction = ''make the sky purple'',
         originalImage = ''IMG0'', maskImage = None\<rparr>) = 3
   \<and> snd (run (api_generate (Some ''key'') (answers JNull)
         \<lparr>http_method = ''POST'', body = \<lparr>referenceImages = Some [''AAAA'', ''BBBB''], prompt = ''a cat''\<rparr>\<rparr>)) =
       [call_of (Some ''key'')
         [Text ''a cat'', InlineData ''image/png'' ''AAAA'', InlineData ''image/png'' ''BBBB'']]"
  using content_array_parts [of "\<lparr>referenceImages = Some [''AAAA'', ''BBBB''], prompt = ''a cat''\<rparr>"
      "\<lparr>referenceImages = Some [''AAAA''], instruction = ''make the sky purple'',
         originalImage = ''IMG0'', maskImage = Some ''MASK''\<rparr>"
      "\<lparr>http_method = ''POST'', body = \<lparr>referenceImages = Some [''AAAA'', ''BBBB''], prompt = ''a cat''\<rparr>\<rparr>"
      "Some ''key''" "answers JNull"]
    content_array_parts [of _
      "\<lparr>referenceImages = Some [''AAAA''], instruction = ''make the sky purple'',
         originalImage = ''IMG0'', maskImage = None\<rparr>"]
  by (simp add: given_images_def)

section \<open>Empty and absent reference images\<close>

lemma given_images_empty: "given_images (Some []) = given_images None"
  by (simp add: given_images_def)

lemma generate_contents_empty_refs:
  "generate_contents (g\<lparr>referenceImages := Some []\<rparr>) = generate_contents (g\<lparr>referenceImages := None\<rparr>)"
  by (simp add: generate_contents_eq given_images_empty)

lemma edit_contents_empty_refs:
  "edit_contents (e\<lparr>referenceImages := Some []\<rparr>) = edit_contents (e\<lparr>referenceImages := None\<rparr>)"
  by (simp add: edit_contents_eq given_images_empty)

text \<open>
  Claim C10. For generate and edit, a \<^verbatim>\<open>referenceImages\<close> field that is present but an
  empty list gives exactly the same content array as an absent field, and hence the same
  handling of the request: the same outbound call and the same response, whatever the
  key, the external model and the rest of the request are.
\<close>

theorem empty_reference_images_as_absent:
  "generate_contents (g\<lparr>referenceImages := Some []\<rparr>) = generate_contents (g\<lparr>referenceImages := None\<rparr>)
   \<and> edit_contents (e\<lparr>referenceImages := Some []\<rparr>) = edit_contents (e\<lparr>referenceImages := None\<rparr>)
   \<and> run (api_generate env up \<lparr>http_method = m, body = g\<lparr>referenceImages := Some []\<rparr>\<rparr>) =
       run (api_generate env up \<lparr>http_method = m, body = g\<lparr>referenceImages := None\<rparr>\<rparr>)
   \<and> run (api_edit env up \<lparr>http_method = m, body = e\<lparr>referenceImages := Some []\<rparr>\<rparr>) =
       run (api_edit env up \<lparr>http_method = m, body = e\<lparr>referenceImages := None\<rparr>\<rparr>)
   \<and> run (server_generate env up (g\<lparr>referenceImages := Some []\<rparr>)) =
       run (server_generate env up (g\<lparr>referenceImages := None\<rparr>))
   \<and> run (server_edit env up (e\<lparr>referenceImages := Some []\<rparr>)) =
       run (server_edit env up (e\<lparr>referenceImages := None\<rparr>))"
proof -
  have g: "generate_contents (g\<lparr>referenceImages := Some []\<rparr>) = generate_contents (g\<lparr>referenceImages := None\<rparr>)"
    by (rule generate_contents_empty_refs)
  have e: "edit_contents (e\<lparr>referenceImages := Some []\<rparr>) = edit_contents (e\<lparr>referenceImages := None\<rparr>)"
    by (rule edit_contents_empty_refs)
  have ag: "api_generate env up \<lparr>http_method = m, body = g\<lparr>referenceImages := Some []\<rparr>\<rparr> =
      api_generate env up \<lparr>http_method = m, body = g\<lparr>referenceImages := None\<rparr>\<rparr>"
    by (simp add: api_generate_def api_generate_try_def g)
  have ae: "api_edit env up \<lparr>http_method = m, body = e\<lparr>referenceImages := Some []\<rparr>\<rparr> =
      api_edit env up \<lparr>http_method = m, body = e\<lparr>referenceImages := None\<rparr>\<rparr>"
    by (simp add: api_edit_def api_edit_try_def e)
  have sg: "server_generate env up (g\<lparr>referenceImages := Some []\<rparr>) =
      server_generate env up (g\<lparr>referenceImages := None\<rparr>)"
    by (simp add: server_generate_def server_generate_try_def g)
  have se: "server_edit env up (e\<lparr>referenceImages := Some []\<rparr>) =
      server_edit env up (e\<lparr>referenceImages := None\<rparr>)"
    by (simp add: server_edit_def server_edit_try_def e)
  from g e ag ae sg se show ?thesis by simp
qed

theorem empty_reference_images_as_absent_witness:
  "generate_contents \<lparr>referenceImages = Some [], prompt = ''a cat''\<rparr> = [Text ''a cat'']
   \<and> generate_contents \<lparr>referenceImages = None, prompt = ''a cat''\<rparr> = [Text ''a cat'']
   \<and> length (edit_contents \<lparr>referenceImages = Some [], instruction = ''make the sky purple'',
         originalImage = ''IMG0'', maskImage = None\<rparr>) = 2"
  using empty_reference_images_as_absent
    [of "\<lparr>referenceImages = Some [''AAAA''], prompt = ''a cat''\<rparr>"
        "\<lparr>referenceImages = Some [''AAAA''], instruction = ''make the sky purple'',
          originalImage = ''IMG0'', maskImage = None\<rparr>"]
  by (simp add: generate_contents_eq edit_contents_eq given_images_def)

section \<open>Requests that are not POST\<close>

text \<open>
  Claim C9. A request whose method is not POST, sent to a serverless endpoint (generate,
  edit, or either segment handler), is answered with status 405 and the JSON body
  \<^verbatim>\<open>{ error: 'Method Not Allowed' }\<close>, and the external model is not contacted: the trace
  of outbound calls is empty.
\<close>

theorem non_post_is_405:
  assumes "http_method rg \<noteq> ''POST''" and "http_method re \<noteq> ''POST''" and "http_method rs \<noteq> ''POST''"
  shows "run (api_generate env up rg) =
           (Some \<lparr>statusCode = 405, sent = Json (JObj [(''error'', JStr ''Method Not Allowed'')])\<rparr>, [])
       \<and> run (api_edit env up re) =
           (Some \<lparr>statusCode = 405, sent = Json (JObj [(''error'', JStr ''Method Not Allowed'')])\<rparr>, [])
       \<and> run (api_segment parse env up rs) =
           (Some \<lparr>statusCode = 405, sent = Json (JObj [(''error'', JStr ''Method Not Allowed'')])\<rparr>, [])
       \<and> run (api_segment2 parse env up rs) =
           (Some \<lparr>statusCode = 405, sent = Json (JObj [(''error'', JStr ''Method Not Allowed'')])\<rparr>, [])"
proof (intro conjI)
  show "run (api_generate env up rg) =
      (Some \<lparr>statusCode = 405, sent = Json (JObj [(''error'', JStr ''Method Not Allowed'')])\<rparr>, [])"
    using assms(1) by (simp add: api_generate_def io_defs response_defs)
  show "run (api_edit env up re) =
      (Some \<lparr>statusCode = 405, sent = Json (JObj [(''error'', JStr ''Method Not Allowed'')])\<rparr>, [])"
    using assms(2) by (simp add: api_edit_def io_defs response_defs)
  show "run (api_segment parse env up rs) =
      (Some \<lparr>statusCode = 405, sent = Json (JObj [(''error'', JStr ''Method Not Allowed'')])\<rparr>, [])"
    using assms(3) by (simp add: api_segment_def io_defs response_defs)
  show "run (api_segment2 parse env up rs) =
      (Some \<lparr>statusCode = 405, sent = Json (JObj [(''error'', JStr ''Method Not Allowed'')])\<rparr>, [])"
    using assms(3) by (simp add: api_segment2_def io_defs response_defs)
qed

theorem non_post_is_405_witness:
  "''GET'' \<noteq> ''POST''
   \<and> run (api_generate (Some ''key'') (answers JNull)
          \<lparr>http_method = ''GET'', body = \<lparr>referenceImages = None, prompt = ''a cat''\<rparr>\<rparr>) =
       (Some \<lparr>statusCode = 405, sent = Json (JObj [(''error'', JStr ''Method Not Allowed'')])\<rparr>, [])
   \<and> run (api_segment sample_parse (Some ''key'') (answers JNull)
          \<lparr>http_method = ''GET'', body = \<lparr>image = ''IMG0'', query = ''the cat''\<rparr>\<rparr>) =
       (Some \<lparr>statusCode = 405, sent = Json (JObj [(''error'', JStr ''Method Not Allowed'')])\<rparr>, [])"
  using non_post_is_405
    [of "\<lparr>http_method = ''GET'', body = \<lparr>referenceImages = None, prompt = ''a cat''\<rparr>\<rparr>"
        "\<lparr>http_method = ''PUT'', body = \<lparr>referenceImages = None, instruction = ''x'',
            originalImage = ''IMG0'', maskImage = None\<rparr>\<rparr>"
        "\<lparr>http_method = ''GET'', body = \<lparr>image = ''IMG0'', query = ''the cat''\<rparr>\<rparr>"
        "Some ''key''" "answers JNull" sample_parse]
  by simp

section \<open>A missing key\<close>

lemma serverless_without_key:
  assumes "\<not> truthy_str env"
  shows "http_method rg = ''POST'' \<Longrightarrow> run (api_generate env up rg) = (Some (failed_with key_error), [])"
    and "http_method re = ''POST'' \<Longrightarrow> run (api_edit env up re) = (Some (failed_with key_error), [])"
    and "http_method rs = ''POST'' \<Longrightarrow> run (api_segment parse env up rs) = (Some (failed_with key_error), [])"
    and "http_method rs = ''POST'' \<Longrightarrow> run (api_segment2 parse env up rs) = (Some (failed_with key_error), [])"
  using assms
  by (simp_all add: serverless_defs io_defs getGenAIInstance_unset res_json_def error_payload_def failed_with_def)

lemma server_without_key:
  assumes "\<not> truthy_str env"
  shows "run (server_generate env up g) = (Some (failed_with key_error), [])"
    and "run (server_edit env up e) = (Some (failed_with key_error), [])"
    and "run (server_segment parse env up s) = (Some (failed_with key_error), [])"
  using assms
  by (simp_all add: server_defs io_defs getGenAIInstance_unset res_json_def error_payload_def failed_with_def)

lemma server1_without_key:
  assumes "\<not> truthy_str env"
  shows "run (server1_generate env up g) = (Some (failed_with key_error), [])"
    and "run (server1_edit env up e) = (Some (failed_with key_error), [])"
    and "run (server1_segment parse env up s) = (Some (failed_with key_error), [])"
  using assms
  by (simp_all add: server1_defs io_defs getGenAIInstance_unset res_json_def error_payload_def failed_with_def)

lemma serverless_without_key_trace:
  assumes "\<not> truthy_str env"
  shows "snd (run (api_generate env up rg)) = []"
    and "snd (run (api_edit env up re)) = []"
    and "snd (run (api_segment parse env up rs)) = []"
    and "snd (run (api_segment2 parse env up rs)) = []"
  using assms
  by (simp_all add: serverless_defs io_defs getGenAIInstance_unset)

text \<open>
  Claim C4. For every operation (generate, edit, segment), in the serverless functions and
  in both standalone servers, when the variable \<^verbatim>\<open>GEMINI_API_KEY\<close> is unset (or empty) the
  handler answers a POST request with status 500 and the message of \<^verbatim>\<open>getApiKey\<close>, and the
  trace of outbound calls is empty: the external model is never called. A serverless
  handler makes no outbound call for any other method either.
\<close>

theorem missing_key_rejected_before_call:
  assumes "\<not> truthy_str env"
  shows "(http_method rg = ''POST'' \<longrightarrow> run (api_generate env up rg) = (Some (failed_with key_error), []))
       \<and> (http_method re = ''POST'' \<longrightarrow> run (api_edit env up re) = (Some (failed_with key_error), []))
       \<and> (http_method rs = ''POST'' \<longrightarrow> run (api_segment parse env up rs) = (Some (failed_with key_error), []))
       \<and> (http_method rs = ''POST'' \<longrightarrow> run (api_segment2 parse env up rs) = (Some (failed_with key_error), []))
       \<and> snd (run (api_generate env up rg)) = []
       \<and> snd (run (api_edit env up re)) = []
       \<and> snd (run (api_segment parse env up rs)) = []
       \<and> snd (run (api_segment2 parse env up rs)) = []
       \<and> run (server_generate env up g) = (Some (failed_with key_error), [])
       \<and> run (server_edit env up e) = (Some (failed_with key_error), [])
       \<and> run (server_segment parse env up s) = (Some (failed_with key_error), [])
       \<and> run (server1_generate env up g) = (Some (failed_with key_error), [])
       \<and> run (server1_edit env up e) = (Some (failed_with key_error), [])
       \<and> run (server1_segment parse env up s) = (Some (failed_with key_error), [])"
  using assms
  by (simp add: serverless_without_key serverless_without_key_trace server_without_key server1_without_key)

theorem missing_key_rejected_before_call_witness:
  "\<not> truthy_str None
   \<and> run (api_generate None (answers (result_with_parts [inline_part ''image/png'' ''AAAA'']))
          \<lparr>http_method = ''POST'', body = \<lparr>referenceImages = None, prompt = ''a cat''\<rparr>\<rparr>) =
       (Some \<lparr>statusCode = 500,
              sent = Json (JObj [(''error'', JStr ''GEMINI_API_KEY is not set in environment variables.'')])\<rparr>, [])
   \<and> run (server_segment sample_parse None (answers (result_with_parts [text_part ''not json'']))
          \<lparr>image = ''IMG0'', query = ''the cat''\<rparr>) =
       (Some \<lparr>statusCode = 500,
              sent = Json (JObj [(''error'', JStr ''GEMINI_API_KEY is not set in environment variables.'')])\<rparr>, [])"
  using missing_key_rejected_before_call
    [where env = None
       and rg = "\<lparr>http_method = ''POST'', body = \<lparr>referenceImages = None, prompt = ''a cat''\<rparr>\<rparr>"
       and up = "answers (result_with_parts [inline_part ''image/png'' ''AAAA''])"]
    missing_key_rejected_before_call
    [where env = None and parse = sample_parse
       and up = "answers (result_with_parts [text_part ''not json''])"
       and s = "\<lparr>image = ''IMG0'', query = ''the cat''\<rparr>"]
  by (simp add: failed_with_def key_error_def)

section \<open>Reading the images of a result\<close>







lemma inline_data_of_Nil: "inline_data_of [] = []"
  by (simp add: inline_data_of_def)

lemma inline_data_of_text: "inline_data_of (text_part t # ps) = inline_data_of ps"
  by (simp add: inline_data_of_def text_part_def field_def)

lemma inline_data_of_inline: "inline_data_of (inline_part m d # ps) = JStr d # inline_data_of ps"
  by (simp add: inline_data_of_def inline_part_def field_def)

section \<open>The edit prompt\<close>

subsection \<open>A text between two fixed texts\<close>

lemma proper_split:
  assumes "p = xs1 @ xs2" and "xs1 \<noteq> []" and "xs2 \<noteq> []"
  shows "length xs1 \<in> set [1..<length p]"
proof -
  have left: "1 \<le> length xs1" using assms(2) by (cases xs1) simp_all
  have right: "1 \<le> length xs2" using assms(3) by (cases xs2) simp_all
  have "length p = length xs1 + length xs2" unfolding assms(1) by simp
  with left right have "1 \<le> length xs1 \<and> length xs1 < length p" by linarith
  then show ?thesis by simp
qed

text \<open>
  A pattern \<open>p\<close> that occurs neither in \<open>h\<close> nor in \<open>t\<close>, and of which no proper beginning
  ends \<open>h\<close> and no proper end begins \<open>t\<close>, occurs in \<open>h @ s @ t\<close> exactly when it occurs
  in \<open>s\<close>.
\<close>

lemma sublist_inside:
  assumes no_head: "\<not> sublist p h" and no_tail: "\<not> sublist p t"
    and head_end: "\<forall>k\<in>set [1..<length p]. \<not> suffix (take k p) h"
    and tail_start: "\<forall>k\<in>set [1..<length p]. \<not> prefix (drop k p) t"
  shows "sublist p (h @ s @ t) \<longleftrightarrow> sublist p s"
proof
  assume inside: "sublist p s"
  have "sublist s (h @ s @ t)" by (rule sublist_appendI)
  with inside show "sublist p (h @ s @ t)" by (rule sublist_order.order.trans)
next
  assume whole: "sublist p (h @ s @ t)"
  have after_head: "sublist p (s @ t)"
  proof -
    from whole have "sublist p h \<or> sublist p (s @ t) \<or>
        (\<exists>xs1 xs2. p = xs1 @ xs2 \<and> suffix xs1 h \<and> prefix xs2 (s @ t))"
      by (simp only: sublist_append)
    then consider "sublist p h" | "sublist p (s @ t)"
      | xs1 xs2 where "p = xs1 @ xs2" "suffix xs1 h" "prefix xs2 (s @ t)"
      by blast
    then show ?thesis
    proof cases
      case 1
      with no_head show ?thesis by simp
    next
      case 2
      then show ?thesis .
    next
      case 3
      show ?thesis
      proof (cases "xs1 = []")
        case True
        with 3(1,3) have "prefix p (s @ t)" by simp
        then show ?thesis by (rule prefix_imp_sublist)
      next
        case nonempty1: False
        show ?thesis
        proof (cases "xs2 = []")
          case True
          with 3(1,2) have "suffix p h" by simp
          then have "sublist p h" by (rule suffix_imp_sublist)
          with no_head show ?thesis by simp
        next
          case nonempty2: False
          have k: "length xs1 \<in> set [1..<length p]"
            using 3(1) nonempty1 nonempty2 by (rule proper_split)
          have "take (length xs1) p = xs1" unfolding 3(1) by simp
          moreover from head_end k have "\<not> suffix (take (length xs1) p) h" by (rule bspec)
          ultimately show ?thesis using 3(2) by simp
        qed
      qed
    qed
  qed
  from after_head have "sublist p s \<or> sublist p t \<or>
      (\<exists>xs1 xs2. p = xs1 @ xs2 \<and> suffix xs1 s \<and> prefix xs2 t)"
    by (simp only: sublist_append)
  then consider "sublist p s" | "sublist p t"
    | xs1 xs2 where "p = xs1 @ xs2" "suffix xs1 s" "prefix xs2 t"
    by blast
  then show "sublist p s"
  proof cases
    case 1
    then show ?thesis .
  next
    case 2
    with no_tail show ?thesis by simp
  next
    case 3
    show ?thesis
    proof (cases "xs1 = []")
      case True
      with 3(1,3) have "prefix p t" by simp
      then have "sublist p t" by (rule prefix_imp_sublist)
      with no_tail show ?thesis by simp
    next
      case nonempty1: False
      show ?thesis
      proof (cases "xs2 = []")
        case True
        with 3(1,2) have "suffix p s" by simp
        then show ?thesis by (rule suffix_imp_sublist)
      next
        case nonempty2: False
        have k: "length xs1 \<in> set [1..<length p]"
          using 3(1) nonempty1 nonempty2 by (rule proper_split)
        have "drop (length xs1) p = xs2" unfolding 3(1) by simp
        moreover from tail_start k have "\<not> prefix (drop (length xs1) p) t" by (rule bspec)
        ultimately show ?thesis using 3(3) by simp
      qed
    qed
  qed
qed

subsection \<open>The prompt without a mask\<close>

lemma buildEditPrompt_without_mask: "buildEditPrompt s False = prompt_head @ s @ prompt_tail"
  by (simp add: buildEditPrompt_def maskInstruction_def prompt_head_def prompt_tail_def)

text \<open>The phrase "white pixels (value 255)".\<close>

lemma mask_phrase_length: "length mask_phrase = 24"
  by (simp add: mask_phrase_def)

lemma phrase_not_in_head: "\<not> sublist mask_phrase prompt_head"
  unfolding mask_phrase_def prompt_head_def by (simp add: sublist_code(3))

lemma phrase_not_in_tail: "\<not> sublist mask_phrase prompt_tail"
  unfolding mask_phrase_def prompt_tail_def by (simp add: sublist_code(3))

lemma head_ends_with_no_start_of_phrase:
  "\<forall>k\<in>set [1..<24]. \<not> suffix (take k mask_phrase) prompt_head"
  unfolding mask_phrase_def prompt_head_def by code_simp

lemma tail_starts_with_no_end_of_phrase:
  "\<forall>k\<in>set [1..<24]. \<not> prefix (drop k mask_phrase) prompt_tail"
  unfolding mask_phrase_def prompt_tail_def by code_simp

lemma phrase_without_mask:
  "sublist mask_phrase (buildEditPrompt s False) \<longleftrightarrow> sublist mask_phrase s"
  unfolding buildEditPrompt_without_mask
proof (rule sublist_inside)
  show "\<not> sublist mask_phrase prompt_head" by (rule phrase_not_in_head)
  show "\<not> sublist mask_phrase prompt_tail" by (rule phrase_not_in_tail)
  show "\<forall>k\<in>set [1..<length mask_phrase]. \<not> suffix (take k mask_phrase) prompt_head"
    unfolding mask_phrase_length by (rule head_ends_with_no_start_of_phrase)
  show "\<forall>k\<in>set [1..<length mask_phrase]. \<not> prefix (drop k mask_phrase) prompt_tail"
    unfolding mask_phrase_length by (rule tail_starts_with_no_end_of_phrase)
qed

text \<open>The mask clause as the builder appends it, line breaks included.\<close>

lemma clause_length: "length (maskInstruction True) = 211"
  by (simp add: maskInstruction_def)

lemma clause_not_in_head: "\<not> sublist (maskInstruction True) prompt_head"
  unfolding maskInstruction_def prompt_head_def by (simp add: sublist_code(3))

lemma clause_not_in_tail: "\<not> sublist (maskInstruction True) prompt_tail"
  unfolding maskInstruction_def prompt_tail_def by (simp add: sublist_code(3))

lemma head_ends_with_no_start_of_clause:
  "\<forall>k\<in>set [1..<211]. \<not> suffix (take k (maskInstruction True)) prompt_head"
  unfolding maskInstruction_def prompt_head_def by code_simp

lemma tail_starts_with_no_end_of_clause:
  "\<forall>k\<in>set [1..<211]. \<not> prefix (drop k (maskInstruction True)) prompt_tail"
  unfolding maskInstruction_def prompt_tail_def by code_simp

lemma clause_without_mask:
  "sublist (maskInstruction True) (buildEditPrompt s False) \<longleftrightarrow> sublist (maskInstruction True) s"
  unfolding buildEditPrompt_without_mask
proof (rule sublist_inside)
  show "\<not> sublist (maskInstruction True) prompt_head" by (rule clause_not_in_head)
  show "\<not> sublist (maskInstruction True) prompt_tail" by (rule clause_not_in_tail)
  show "\<forall>k\<in>set [1..<length (maskInstruction True)]. \<not> suffix (take k (maskInstruction True)) prompt_head"
    unfolding clause_length by (rule head_ends_with_no_start_of_clause)
  show "\<forall>k\<in>set [1..<length (maskInstruction True)]. \<not> prefix (drop k (maskInstruction True)) prompt_tail"
    unfolding clause_length by (rule tail_starts_with_no_end_of_clause)
qed

text \<open>The sentences of the mask clause.\<close>

lemma sentences_length: "length mask_sentences = 209"
  by (simp add: mask_sentences_def)

lemma sentences_not_in_head: "\<not> sublist mask_sentences prompt_head"
  unfolding mask_sentences_def prompt_head_def by (simp add: sublist_code(3))

lemma sentences_not_in_tail: "\<not> sublist mask_sentences prompt_tail"
  unfolding mask_sentences_def prompt_tail_def by (simp add: sublist_code(3))

lemma head_ends_with_no_start_of_sentences:
  "\<forall>k\<in>set [1..<209]. \<not> suffix (take k mask_sentences) prompt_head"
  unfolding mask_sentences_def prompt_head_def by code_simp

lemma tail_starts_with_no_end_of_sentences:
  "\<forall>k\<in>set [1..<209]. \<not> prefix (drop k mask_sentences) prompt_tail"
  unfolding mask_sentences_def prompt_tail_def by code_simp

lemma sentences_without_mask:
  "sublist mask_sentences (buildEditPrompt s False) \<longleftrightarrow> sublist mask_sentences s"
  unfolding buildEditPrompt_without_mask
proof (rule sublist_inside)
  show "\<not> sublist mask_sentences prompt_head" by (rule sentences_not_in_head)
  show "\<not> sublist mask_sentences prompt_tail" by (rule sentences_not_in_tail)
  show "\<forall>k\<in>set [1..<length mask_sentences]. \<not> suffix (take k mask_sentences) prompt_head"
    unfolding sentences_length by (rule head_ends_with_no_start_of_sentences)
  show "\<forall>k\<in>set [1..<length mask_sentences]. \<not> prefix (drop k mask_sentences) prompt_tail"
    unfolding sentences_length by (rule tail_starts_with_no_end_of_sentences)
qed

subsection \<open>The prompt with a mask\<close>

lemma clause_is_sentences: "maskInstruction True = ''\<newline>\<newline>'' @ mask_sentences"
  by (simp add: maskInstruction_def mask_sentences_def)

lemma sentences_in_clause: "sublist mask_sentences (maskInstruction True)"
  unfolding clause_is_sentences by (rule sublist_append_leftI)

lemma phrase_in_clause: "sublist mask_phrase (maskInstruction True)"
  unfolding mask_phrase_def maskInstruction_def by (simp add: sublist_code(3))

lemma clause_in_prompt: "sublist (maskInstruction True) (buildEditPrompt s True)"
proof -
  have "buildEditPrompt s True =
      (prompt_head @ s @ ''\<newline>\<newline>Maintain the original image's lighting, perspective, and overall composition. Make the changes look natural and seamlessly integrated.'')
      @ maskInstruction True
      @ ''\<newline>\<newline>Preserve image quality and ensure the edit looks professional and realistic.''"
    unfolding buildEditPrompt_def prompt_head_def by (simp only: append_assoc)
  then show ?thesis by (simp only: sublist_appendI)
qed

lemma sentences_in_prompt: "sublist mask_sentences (buildEditPrompt s True)"
  using sentences_in_clause clause_in_prompt by (rule sublist_order.order.trans)

lemma phrase_in_prompt: "sublist mask_phrase (buildEditPrompt s True)"
  using phrase_in_clause clause_in_prompt by (rule sublist_order.order.trans)

lemma instruction_in_prompt: "sublist s (buildEditPrompt s hasMask)"
  unfolding buildEditPrompt_def by (rule sublist_appendI)

text \<open>
  Claim C2, as the specification states it, fails: with \<open>hasMask\<close> false the prompt still
  contains the whole mask clause, and with it the phrase "white pixels (value 255)", when
  the instruction itself contains the clause.
\<close>

theorem mask_clause_without_mask_counterexample:
  "\<not> (str_includes
         (buildEditPrompt ''paint the wall red\<newline>\<newline>IMPORTANT: Apply changes ONLY where the mask image shows white pixels (value 255). Leave all other areas completely unchanged. Respect the mask boundaries precisely and maintain seamless blending at the edges.'' False)
         (maskInstruction True) \<longleftrightarrow> False)
   \<and> \<not> (str_includes
         (buildEditPrompt ''paint the wall red\<newline>\<newline>IMPORTANT: Apply changes ONLY where the mask image shows white pixels (value 255). Leave all other areas completely unchanged. Respect the mask boundaries precisely and maintain seamless blending at the edges.'' False)
         ''white pixels (value 255)'' \<longleftrightarrow> False)"
  by (simp add: str_includes_def buildEditPrompt_def maskInstruction_def sublist_code(3))

text \<open>
  Claim C2, amended. For every instruction \<open>s\<close> and every \<open>hasMask\<close>, the prompt contains \<open>s\<close>
  verbatim. It contains the mask clause (as appended, and likewise its sentences alone) if
  and only if \<open>hasMask\<close> is true or the instruction itself contains the clause; it contains
  the phrase "white pixels (value 255)" if and only if \<open>hasMask\<close> is true or the
  instruction itself contains the phrase. So for an instruction that contains neither,
  clause and phrase are present exactly when \<open>hasMask\<close> is true. The phrase is part of the
  clause, and the prompt for "make the sky purple" with a mask contains both the
  instruction and the phrase.
\<close>

theorem buildEditPrompt_contents:
  "str_includes (buildEditPrompt s hasMask) s
   \<and> (str_includes (buildEditPrompt s hasMask) (maskInstruction True)
        \<longleftrightarrow> hasMask \<or> str_includes s (maskInstruction True))
   \<and> (str_includes (buildEditPrompt s hasMask) mask_sentences
        \<longleftrightarrow> hasMask \<or> str_includes s mask_sentences)
   \<and> (str_includes (buildEditPrompt s hasMask) ''white pixels (value 255)''
        \<longleftrightarrow> hasMask \<or> str_includes s ''white pixels (value 255)'')
   \<and> str_includes (maskInstruction True) ''white pixels (value 255)''
   \<and> str_includes (buildEditPrompt ''make the sky purple'' True) ''make the sky purple''
   \<and> str_includes (buildEditPrompt ''make the sky purple'' True) ''white pixels (value 255)''"
proof -
  have verbatim: "str_includes (buildEditPrompt t m) t" for t m
    by (simp only: str_includes_def instruction_in_prompt)
  have clause: "str_includes (buildEditPrompt s hasMask) (maskInstruction True)
      \<longleftrightarrow> hasMask \<or> str_includes s (maskInstruction True)"
  proof (cases hasMask)
    case True
    then show ?thesis by (simp add: str_includes_def clause_in_prompt)
  next
    case False
    then show ?thesis by (simp add: str_includes_def clause_without_mask)
  qed
  have sentences: "str_includes (buildEditPrompt s hasMask) mask_sentences
      \<longleftrightarrow> hasMask \<or> str_includes s mask_sentences"
  proof (cases hasMask)
    case True
    then show ?thesis by (simp add: str_includes_def sentences_in_prompt)
  next
    case False
    then show ?thesis by (simp add: str_includes_def sentences_without_mask)
  qed
  have phrase: "str_includes (buildEditPrompt s hasMask) mask_phrase
      \<longleftrightarrow> hasMask \<or> str_includes s mask_phrase"
  proof (cases hasMask)
    case True
    then show ?thesis by (simp add: str_includes_def phrase_in_prompt)
  next
    case False
    then show ?thesis by (simp add: str_includes_def phrase_without_mask)
  qed
  have part: "str_includes (maskInstruction True) mask_phrase"
    by (simp only: str_includes_def phrase_in_clause)
  have example: "str_includes (buildEditPrompt ''make the sky purple'' True) mask_phrase"
    by (simp only: str_includes_def phrase_in_prompt)
  from verbatim [of s hasMask] clause sentences phrase part verbatim [of "''make the sky purple''" True] example
  show ?thesis unfolding mask_phrase_def by (intro conjI)
qed

theorem buildEditPrompt_contents_witness:
  "str_includes (buildEditPrompt ''make the sky purple'' True) (maskInstruction True)
   \<and> str_includes (buildEditPrompt ''make the sky purple'' True) ''white pixels (value 255)''
   \<and> \<not> str_includes ''make the sky purple'' (maskInstruction True)
   \<and> \<not> str_includes ''make the sky purple'' ''white pixels (value 255)''
   \<and> \<not> str_includes (buildEditPrompt ''make the sky purple'' False) (maskInstruction True)
   \<and> \<not> str_includes (buildEditPrompt ''make the sky purple'' False) ''white pixels (value 255)''"
proof -
  have no_clause: "\<not> str_includes ''make the sky purple'' (maskInstruction True)"
    by (simp add: str_includes_def maskInstruction_def sublist_code(3))
  have no_phrase: "\<not> str_includes ''make the sky purple'' ''white pixels (value 255)''"
    by (simp add: str_includes_def sublist_code(3))
  from buildEditPrompt_contents [of "''make the sky purple''" True]
    buildEditPrompt_contents [of "''make the sky purple''" False] no_clause no_phrase
  show ?thesis by simp
qed

section \<open>The classification of errors on the client\<close>










section \<open>The outcome of every handler\<close>

text \<open>
  Each handler, run from the empty trace, in one equation: the method check (serverless
  only), the key check, then the one outbound call, after which every error of the
  \<^verbatim>\<open>try\<close> block becomes the response 500 with its message.
\<close>

lemma api_generate_run:
  "run (api_generate env up rg) =
     (if http_method rg \<noteq> ''POST'' then (Some method_not_allowed, [])
      else if \<not> truthy_str env then (Some (failed_with key_error), [])
      else (Some (case bind_r (up (call_of env (generate_contents (body rg)))) candidates_images of
                    Inl err \<Rightarrow> failed_with err
                  | Inr images \<Rightarrow> images_response images),
            [call_of env (generate_contents (body rg))]))"
  by (simp add: api_generate_def api_generate_try_def io_defs getGenAIInstance_unset getGenAIInstance_set
      response_defs bind_r_def split: sum.splits)

lemma api_edit_run:
  "run (api_edit env up re) =
     (if http_method re \<noteq> ''POST'' then (Some method_not_allowed, [])
      else if \<not> truthy_str env then (Some (failed_with key_error), [])
      else (Some (case bind_r (up (call_of env (edit_contents (body re)))) candidates_images of
                    Inl err \<Rightarrow> failed_with err
                  | Inr images \<Rightarrow> images_response images),
            [call_of env (edit_contents (body re))]))"
  by (simp add: api_edit_def api_edit_try_def io_defs getGenAIInstance_unset getGenAIInstance_set
      response_defs bind_r_def split: sum.splits)

lemma api_segment_run:
  "run (api_segment parse env up rs) =
     (if http_method rs \<noteq> ''POST'' then (Some method_not_allowed, [])
      else if \<not> truthy_str env then (Some (failed_with key_error), [])
      else (Some (case bind_r (up (call_of env (segment_contents (body rs)))) candidates_text of
                    Inl err \<Rightarrow> failed_with err
                  | Inr responseText \<Rightarrow>
                      (case JSON_parse parse responseText of
                         Inl e \<Rightarrow> res_send 200 responseText
                       | Inr jsonResponse \<Rightarrow> res_json 200 jsonResponse)),
            [call_of env (segment_contents (body rs))]))"
  by (simp add: api_segment_def api_segment_try_def parse_or_send_def io_defs getGenAIInstance_unset getGenAIInstance_set
      response_defs bind_r_def split: sum.splits)

lemma api_segment2_run:
  "run (api_segment2 parse env up rs) =
     (if http_method rs \<noteq> ''POST'' then (Some method_not_allowed, [])
      else if \<not> truthy_str env then (Some (failed_with key_error), [])
      else (Some (case bind_r (up (call_of env (segment_contents (body rs)))) response_candidates_text of
                    Inl err \<Rightarrow> failed_with err
                  | Inr responseText \<Rightarrow>
                      (case JSON_parse parse responseText of
                         Inl e \<Rightarrow> res_send 200 responseText
                       | Inr jsonResponse \<Rightarrow> res_json 200 jsonResponse)),
            [call_of env (segment_contents (body rs))]))"
  by (simp add: api_segment2_def api_segment2_try_def parse_or_send_def io_defs getGenAIInstance_unset getGenAIInstance_set
      response_defs bind_r_def split: sum.splits)

lemma server_generate_run:
  "run (server_generate env up g) =
     (if \<not> truthy_str env then (Some (failed_with key_error), [])
      else (Some (case bind_r (up (call_of env (generate_contents g))) response_candidates_images of
                    Inl err \<Rightarrow> failed_with err
                  | Inr images \<Rightarrow> images_response images),
            [call_of env (generate_contents g)]))"
  by (simp add: server_generate_def server_generate_try_def io_defs getGenAIInstance_unset getGenAIInstance_set
      response_defs bind_r_def split: sum.splits)

lemma server_edit_run:
  "run (server_edit env up e) =
     (if \<not> truthy_str env then (Some (failed_with key_error), [])
      else (Some (case bind_r (up (call_of env (edit_contents e))) response_candidates_images of
                    Inl err \<Rightarrow> failed_with err
                  | Inr images \<Rightarrow> images_response images),
            [call_of env (edit_contents e)]))"
  by (simp add: server_edit_def server_edit_try_def io_defs getGenAIInstance_unset getGenAIInstance_set
      response_defs bind_r_def split: sum.splits)

lemma server_segment_run:
  "run (server_segment parse env up s) =
     (if \<not> truthy_str env then (Some (failed_with key_error), [])
      else (Some (case bind_r (bind_r (up (call_of env (segment_contents s))) response_candidates_text) (JSON_parse parse) of
                    Inl err \<Rightarrow> failed_with err
                  | Inr parsed \<Rightarrow> res_json 200 parsed),
            [call_of env (segment_contents s)]))"
  by (simp add: server_segment_def server_segment_try_def io_defs getGenAIInstance_unset getGenAIInstance_set
      response_defs bind_r_def split: sum.splits)

lemma server1_generate_run:
  "run (server1_generate env up g) =
     (if \<not> truthy_str env then (Some (failed_with key_error), [])
      else (Some (case bind_r (up (call_of env (generate_contents g))) candidates_images of
                    Inl err \<Rightarrow> failed_with err
                  | Inr images \<Rightarrow> images_response images),
            [call_of env (generate_contents g)]))"
  by (simp add: server1_generate_def server1_generate_try_def io_defs getGenAIInstance_unset getGenAIInstance_set
      response_defs bind_r_def split: sum.splits)

lemma server1_edit_run:
  "run (server1_edit env up e) =
     (if \<not> truthy_str env then (Some (failed_with key_error), [])
      else (Some (case bind_r (up (call_of env (edit_contents e))) candidates_images of
                    Inl err \<Rightarrow> failed_with err
                  | Inr images \<Rightarrow> images_response images),
            [call_of env (edit_contents e)]))"
  by (simp add: server1_edit_def server1_edit_try_def io_defs getGenAIInstance_unset getGenAIInstance_set
      response_defs bind_r_def split: sum.splits)

lemma server1_segment_run:
  "run (server1_segment parse env up s) =
     (if \<not> truthy_str env then (Some (failed_with key_error), [])
      else (Some (case bind_r (bind_r (up (call_of env (segment_contents s))) candidates_text) (JSON_parse parse) of
                    Inl err \<Rightarrow> failed_with err
                  | Inr parsed \<Rightarrow> res_json 200 parsed),
            [call_of env (segment_contents s)]))"
  by (simp add: server1_segment_def server1_segment_try_def io_defs getGenAIInstance_unset getGenAIInstance_set
      response_defs bind_r_def split: sum.splits)

lemmas handler_runs = api_generate_run api_edit_run api_segment_run api_segment2_run
  server_generate_run server_edit_run server_segment_run
  server1_generate_run server1_edit_run server1_segment_run

lemmas reader_defs = candidates_parts_def response_candidates_parts_def first_text_def
  candidates_images_def response_candidates_images_def candidates_text_def
  response_candidates_text_def result_with_parts_def under_response_def text_part_def
  inline_part_def

section \<open>The images of the first candidate\<close>







section \<open>The text of a segmentation result\<close>

text \<open>
  The serverless segment handler does what the specification describes: with a key and a
  result whose first part has the text \<open>responseText\<close>, it answers 200 with the parsed JSON
  when the text parses, and 200 with the text itself when parsing throws.
\<close>

lemma api_segment_parsed_or_raw:
  assumes "http_method rs = ''POST''" and "truthy_str env"
    and "up (call_of env (segment_contents (body rs))) = Inr result"
    and "candidates_text result = Inr responseText"
  shows "JSON_parse parse responseText = Inr v \<Longrightarrow>
           run (api_segment parse env up rs) =
             (Some \<lparr>statusCode = 200, sent = Json v\<rparr>, [call_of env (segment_contents (body rs))])"
    and "JSON_parse parse responseText = Inl err \<Longrightarrow>
           run (api_segment parse env up rs) =
             (Some \<lparr>statusCode = 200, sent = Send responseText\<rparr>, [call_of env (segment_contents (body rs))])"
  using assms by (simp_all add: api_segment_run bind_r_simps res_json_def res_send_def)

text \<open>
  Claim C3 says that every segment handler answers a text that does not parse with status
  200 and the raw text. The handler of server.ts has no inner \<^verbatim>\<open>try\<close> around
  \<^verbatim>\<open>JSON.parse\<close>: for the text "not json" it answers 500 with the message of the
  \<^verbatim>\<open>SyntaxError\<close>. This holds when the result carries its candidates under
  \<^verbatim>\<open>response\<close>, as server.ts reads them; for a result that carries them at the top
  level, as the serverless handlers read them, it answers 500 as well, with the
  \<^verbatim>\<open>TypeError\<close> of reading \<^verbatim>\<open>result.response.candidates\<close>. The earlier server
  answers 500 too.
\<close>

theorem server_segment_unparsable_text_is_500:
  "fst (run (server_segment sample_parse (Some ''key'')
          (answers (under_response (result_with_parts [text_part ''not json''])))
          \<lparr>image = ''IMG0'', query = ''the cat''\<rparr>))
     = Some \<lparr>statusCode = 500,
             sent = Json (JObj [(''error'', JStr ''Unexpected token 'o', \"not json\" is not valid JSON'')])\<rparr>
   \<and> fst (run (server_segment sample_parse (Some ''key'')
          (answers (result_with_parts [text_part ''not json'']))
          \<lparr>image = ''IMG0'', query = ''the cat''\<rparr>))
     = Some \<lparr>statusCode = 500,
             sent = Json (JObj [(''error'', JStr ''Cannot read properties of undefined (reading 'candidates')'')])\<rparr>
   \<and> fst (run (server1_segment sample_parse (Some ''key'')
          (answers (result_with_parts [text_part ''not json'']))
          \<lparr>image = ''IMG0'', query = ''the cat''\<rparr>))
     = Some \<lparr>statusCode = 500,
             sent = Json (JObj [(''error'', JStr ''Unexpected token 'o', \"not json\" is not valid JSON'')])\<rparr>"
  by (simp add: server_segment_run server1_segment_run bind_r_simps answers_def reader_defs
      JSON_parse_def sample_parse_def failed_with_def cannot_read_def)

section \<open>The two deployments of generate\<close>

text \<open>
  Both deployments send the external model the same call, and the earlier server answers
  exactly as the serverless handler does.
\<close>

lemma server_generate_same_call:
  "snd (run (server_generate env up b)) = snd (run (api_generate env up \<lparr>http_method = ''POST'', body = b\<rparr>))"
  by (simp add: server_generate_run api_generate_run)

lemma server1_generate_as_serverless:
  "run (server1_generate env up b) = run (api_generate env up \<lparr>http_method = ''POST'', body = b\<rparr>)"
  by (simp add: server1_generate_run api_generate_run)

text \<open>
  Claim C6 says that the standalone server and the serverless handler return the same
  \<^verbatim>\<open>{ images }\<close> payload for the same request and the same result of the model. The
  handler of server.ts reads \<^verbatim>\<open>result.response.candidates\<close>, the serverless handler (and
  the earlier server) \<^verbatim>\<open>result.candidates\<close>. For the prompt "a cat" and a result whose first
  candidate has one inline image, the serverless handler and the earlier server answer
  200 with that image, and server.ts answers 500 with a \<^verbatim>\<open>TypeError\<close>, after the same
  outbound call.
\<close>

theorem server_generate_differs_from_serverless:
  "fst (run (api_generate (Some ''key'') (answers (result_with_parts [inline_part ''image/png'' ''AAAA'']))
          \<lparr>http_method = ''POST'', body = \<lparr>referenceImages = None, prompt = ''a cat''\<rparr>\<rparr>))
     = Some \<lparr>statusCode = 200, sent = Json (JObj [(''images'', JArr [JStr ''AAAA''])])\<rparr>
   \<and> fst (run (server1_generate (Some ''key'') (answers (result_with_parts [inline_part ''image/png'' ''AAAA'']))
          \<lparr>referenceImages = None, prompt = ''a cat''\<rparr>))
     = Some \<lparr>statusCode = 200, sent = Json (JObj [(''images'', JArr [JStr ''AAAA''])])\<rparr>
   \<and> fst (run (server_generate (Some ''key'') (answers (result_with_parts [inline_part ''image/png'' ''AAAA'']))
          \<lparr>referenceImages = None, prompt = ''a cat''\<rparr>))
     = Some \<lparr>statusCode = 500,
             sent = Json (JObj [(''error'', JStr ''Cannot read properties of undefined (reading 'candidates')'')])\<rparr>
   \<and> snd (run (server_generate (Some ''key'') (answers (result_with_parts [inline_part ''image/png'' ''AAAA'']))
          \<lparr>referenceImages = None, prompt = ''a cat''\<rparr>))
     = snd (run (api_generate (Some ''key'') (answers (result_with_parts [inline_part ''image/png'' ''AAAA'']))
          \<lparr>http_method = ''POST'', body = \<lparr>referenceImages = None, prompt = ''a cat''\<rparr>\<rparr>))"
  by (simp add: api_generate_run server_generate_run server1_generate_run bind_r_simps answers_def
      reader_defs inline_images_def failed_with_def images_response_def cannot_read_def)

section \<open>Failures\<close>

text \<open>
  Claim C7, as the specification states it, fails: in the serverless segment handler a
  failure to parse the text of the result is not answered with status 500. For the text
  "not json", which \<^verbatim>\<open>JSON.parse\<close> rejects, the handler answers 200 with the raw text.
\<close>

theorem parse_failure_is_not_500_counterexample:
  "JSON_parse sample_parse (JStr ''not json'')
     = Inl (JsError ''SyntaxError'' ''Unexpected token 'o', \"not json\" is not valid JSON'')
   \<and> fst (run (api_segment sample_parse (Some ''key'') (answers (result_with_parts [text_part ''not json'']))
          \<lparr>http_method = ''POST'', body = \<lparr>image = ''IMG0'', query = ''the cat''\<rparr>\<rparr>))
     = Some \<lparr>statusCode = 200, sent = Send (JStr ''not json'')\<rparr>"
  by (simp add: api_segment_run bind_r_simps answers_def reader_defs JSON_parse_def
      sample_parse_def res_send_def)

text \<open>
  Claim C7, amended. For every handler (generate, edit, segment; serverless, server.ts and
  the earlier server) and every POST request: a missing key, a rejection by the external
  model, and an error thrown while reading the result object each give the response 500
  whose JSON body is \<^verbatim>\<open>{ error: m }\<close>, \<open>m\<close> the message of the error. A text that
  \<^verbatim>\<open>JSON.parse\<close> rejects is answered by the serverless segment handlers with status 200
  and the raw text. No handler calls the external model more than once.
\<close>

theorem failures_answer_500:
  assumes "http_method rg = ''POST''" and "http_method re = ''POST''" and "http_method rs = ''POST''"
  shows
    "(\<not> truthy_str env \<longrightarrow>
        run (api_generate env up rg) = (Some (failed_with key_error), [])
      \<and> run (api_edit env up re) = (Some (failed_with key_error), [])
      \<and> run (api_segment parse env up rs) = (Some (failed_with key_error), [])
      \<and> run (api_segment2 parse env up rs) = (Some (failed_with key_error), [])
      \<and> run (server_generate env up (body rg)) = (Some (failed_with key_error), [])
      \<and> run (server_edit env up (body re)) = (Some (failed_with key_error), [])
      \<and> run (server_segment parse env up (body rs)) = (Some (failed_with key_error), [])
      \<and> run (server1_generate env up (body rg)) = (Some (failed_with key_error), [])
      \<and> run (server1_edit env up (body re)) = (Some (failed_with key_error), [])
      \<and> run (server1_segment parse env up (body rs)) = (Some (failed_with key_error), []))
   \<and> (truthy_str env \<and> up (call_of env (generate_contents (body rg))) = Inl err \<longrightarrow>
        run (api_generate env up rg) = (Some (failed_with err), [call_of env (generate_contents (body rg))])
      \<and> run (server_generate env up (body rg)) = (Some (failed_with err), [call_of env (generate_contents (body rg))])
      \<and> run (server1_generate env up (body rg)) = (Some (failed_with err), [call_of env (generate_contents (body rg))]))
   \<and> (truthy_str env \<and> up (call_of env (edit_contents (body re))) = Inl err \<longrightarrow>
        run (api_edit env up re) = (Some (failed_with err), [call_of env (edit_contents (body re))])
      \<and> run (server_edit env up (body re)) = (Some (failed_with err), [call_of env (edit_contents (body re))])
      \<and> run (server1_edit env up (body re)) = (Some (failed_with err), [call_of env (edit_contents (body re))]))
   \<and> (truthy_str env \<and> up (call_of env (segment_contents (body rs))) = Inl err \<longrightarrow>
        run (api_segment parse env up rs) = (Some (failed_with err), [call_of env (segment_contents (body rs))])
      \<and> run (api_segment2 parse env up rs) = (Some (failed_with err), [call_of env (segment_contents (body rs))])
      \<and> run (server_segment parse env up (body rs)) = (Some (failed_with err), [call_of env (segment_contents (body rs))])
      \<and> run (server1_segment parse env up (body rs)) = (Some (failed_with err), [call_of env (segment_contents (body rs))]))
   \<and> (truthy_str env \<and> up (call_of env (generate_contents (body rg))) = Inr result
        \<and> candidates_images result = Inl err \<longrightarrow>
        run (api_generate env up rg) = (Some (failed_with err), [call_of env (generate_contents (body rg))])
      \<and> run (server1_generate env up (body rg)) = (Some (failed_with err), [call_of env (generate_contents (body rg))]))
   \<and> (truthy_str env \<and> up (call_of env (generate_contents (body rg))) = Inr result
        \<and> response_candidates_images result = Inl err \<longrightarrow>
        run (server_generate env up (body rg)) = (Some (failed_with err), [call_of env (generate_contents (body rg))]))
   \<and> (truthy_str env \<and> up (call_of env (edit_contents (body re))) = Inr result
        \<and> candidates_images result = Inl err \<longrightarrow>
        run (api_edit env up re) = (Some (failed_with err), [call_of env (edit_contents (body re))])
      \<and> run (server1_edit env up (body re)) = (Some (failed_with err), [call_of env (edit_contents (body re))]))
   \<and> (truthy_str env \<and> up (call_of env (edit_contents (body re))) = Inr result
        \<and> response_candidates_images result = Inl err \<longrightarrow>
        run (server_edit env up (body re)) = (Some (failed_with err), [call_of env (edit_contents (body re))]))
   \<and> (truthy_str env \<and> up (call_of env (segment_contents (body rs))) = Inr result
        \<and> candidates_text result = Inl err \<longrightarrow>
        run (api_segment parse env up rs) = (Some (failed_with err), [call_of env (segment_contents (body rs))])
      \<and> run (server1_segment parse env up (body rs)) = (Some (failed_with err), [call_of env (segment_contents (body rs))]))
   \<and> (truthy_str env \<and> up (call_of env (segment_contents (body rs))) = Inr result
        \<and> response_candidates_text result = Inl err \<longrightarrow>
        run (api_segment2 parse env up rs) = (Some (failed_with err), [call_of env (segment_contents (body rs))])
      \<and> run (server_segment parse env up (body rs)) = (Some (failed_with err), [call_of env (segment_contents (body rs))]))
   \<and> (truthy_str env \<and> up (call_of env (segment_contents (body rs))) = Inr result
        \<and> candidates_text result = Inr responseText \<and> JSON_parse parse responseText = Inl err \<longrightarrow>
        run (api_segment parse env up rs) = (Some (res_send 200 responseText), [call_of env (segment_contents (body rs))]))
   \<and> (truthy_str env \<and> up (call_of env (segment_contents (body rs))) = Inr result
        \<and> response_candidates_text result = Inr responseText \<and> JSON_parse parse responseText = Inl err \<longrightarrow>
        run (api_segment2 parse env up rs) = (Some (res_send 200 responseText), [call_of env (segment_contents (body rs))]))
   \<and> length (snd (run (api_generate env up rg))) \<le> 1
   \<and> length (snd (run (api_edit env up re))) \<le> 1
   \<and> length (snd (run (api_segment parse env up rs))) \<le> 1
   \<and> length (snd (run (api_segment2 parse env up rs))) \<le> 1
   \<and> length (snd (run (server_generate env up g))) \<le> 1
   \<and> length (snd (run (server_edit env up e))) \<le> 1
   \<and> length (snd (run (server_segment parse env up s))) \<le> 1
   \<and> length (snd (run (server1_generate env up g))) \<le> 1
   \<and> length (snd (run (server1_edit env up e))) \<le> 1
   \<and> length (snd (run (server1_segment parse env up s))) \<le> 1"
  using assms by (simp add: handler_runs bind_r_simps)

theorem failures_answer_500_witness:
  "fst (run (api_edit (Some ''key'') (rejects (JsError ''ApiError'' ''quota exceeded''))
          \<lparr>http_method = ''POST'', body = \<lparr>referenceImages = None, instruction = ''make the sky purple'',
               originalImage = ''IMG0'', maskImage = None\<rparr>\<rparr>))
     = Some \<lparr>statusCode = 500, sent = Json (JObj [(''error'', JStr ''quota exceeded'')])\<rparr>
   \<and> fst (run (server_generate (Some ''key'') (rejects (JsError ''ApiError'' ''quota exceeded''))
          \<lparr>referenceImages = None, prompt = ''a cat''\<rparr>))
     = Some \<lparr>statusCode = 500, sent = Json (JObj [(''error'', JStr ''quota exceeded'')])\<rparr>
   \<and> length (snd (run (api_segment sample_parse (Some ''key'') (rejects (JsError ''ApiError'' ''quota exceeded''))
          \<lparr>http_method = ''POST'', body = \<lparr>image = ''IMG0'', query = ''the cat''\<rparr>\<rparr>))) = 1"
proof -
  have posts: "http_method \<lparr>http_method = ''POST'', body = \<lparr>referenceImages = None, prompt = ''a cat''\<rparr>\<rparr> = ''POST''"
    "http_method \<lparr>http_method = ''POST'', body = \<lparr>referenceImages = None, instruction = ''make the sky purple'',
               originalImage = ''IMG0'', maskImage = None\<rparr>\<rparr> = ''POST''"
    "http_method \<lparr>http_method = ''POST'', body = \<lparr>image = ''IMG0'', query = ''the cat''\<rparr>\<rparr> = ''POST''"
    by simp_all
  from failures_answer_500 [OF posts, where env = "Some ''key''"
      and up = "rejects (JsError ''ApiError'' ''quota exceeded'')"
      and err = "JsError ''ApiError'' ''quota exceeded''" and parse = sample_parse]
  show ?thesis by (simp add: rejects_def failed_with_def)
qed

end
